theory Spec2Isabelle
  imports Main
begin

section \<open>thrift/lib/cpp/async/TUndelayedDestruction.h\<close>

text \<open>
  The header declares one class template, \<^verbatim>\<open>TUndelayedDestruction<TDD>\<close>, deriving
  from its template parameter \<^verbatim>\<open>TDD\<close>. It has a forwarding constructor, a public
  virtual destructor, and the protected overrides \<^verbatim>\<open>destroy()\<close> and
  \<^verbatim>\<open>destroyNow(bool)\<close>. The class adds no data member, so the state of an object
  is the state of its \<^verbatim>\<open>TDD\<close> sub-object, a value of the type variable \<open>'b\<close>.
\<close>

subsection \<open>How a call ends\<close>

text \<open>
  \<^verbatim>\<open>abort()\<close> and a failed \<^verbatim>\<open>assert\<close> end the process; neither returns and
  neither can be caught. An outcome keeps the object state at the moment the call ended.
\<close>

datatype fault = Abort | AssertionFailed

datatype 'b outcome = Returns 'b | Terminated fault 'b

text \<open>
  \<^verbatim>\<open>assert\<close> of \<^verbatim>\<open><cassert>\<close> depends on whether \<^verbatim>\<open>NDEBUG\<close> is defined:
  \<open>Release\<close> is a build with \<^verbatim>\<open>NDEBUG\<close>, \<open>Debug\<close> one without.
\<close>

datatype build = Debug | Release

definition c_assert :: "build \<Rightarrow> bool \<Rightarrow> 'b \<Rightarrow> 'b outcome" where
  "c_assert bm e b =
     (case bm of
        Release \<Rightarrow> Returns b
      | Debug \<Rightarrow> (if e then Returns b else Terminated AssertionFailed b))"

subsection \<open>The calls the class makes\<close>

text \<open>
  The member functions of the class call \<^verbatim>\<open>abort()\<close> and \<^verbatim>\<open>TDD::destroy()\<close>.
  A run of a member function is the list of these calls, in the order they were made,
  and the outcome. \<^verbatim>\<open>getDestructorGuardCount()\<close> is a read and is not listed.
\<close>

datatype call = Call_abort | Call_TDD_destroy

type_synonym 'b run = "call list \<times> 'b outcome"

definition skip :: "'b \<Rightarrow> 'b run" where
  "skip b = ([], Returns b)"

definition abort :: "'b \<Rightarrow> 'b run" where
  "abort b = ([Call_abort], Terminated Abort b)"

text \<open>
  Two statements in sequence: the second runs only if the first returns, on the state
  the first left.
\<close>

definition seq :: "('b \<Rightarrow> 'b run) \<Rightarrow> ('b \<Rightarrow> 'b run) \<Rightarrow> 'b \<Rightarrow> 'b run" where
  "seq p q b =
     (case p b of
        (cs, Returns b') \<Rightarrow> (case q b' of (cs', r) \<Rightarrow> (cs @ cs', r))
      | (cs, Terminated f b') \<Rightarrow> (cs, Terminated f b'))"

subsection \<open>The template parameter\<close>

text \<open>
  An argument expression of a constructor call is a value category and the object the
  expression denotes.
\<close>

datatype category = LValue | RValue

type_synonym 'v arg = "category \<times> 'v"

text \<open>
  \<^verbatim>\<open>TDD\<close> is a parameter of the class, and so of every definition below. The class
  uses three things of it:
  \<^item> its constructors: from an argument list, an exception of type \<open>'x\<close> or the state
    of the constructed object (overload resolution included, so the result may depend
    on the value categories);
  \<^item> \<^verbatim>\<open>getDestructorGuardCount()\<close>, a read of the state. The header compares the
    result with \<^verbatim>\<open>0\<close> and leaves its integer type to \<^verbatim>\<open>TDD\<close>; it is \<open>int\<close> here;
  \<^item> \<^verbatim>\<open>TDD::destroy()\<close>. It may call the virtual \<^verbatim>\<open>destroyNow(bool)\<close> of the
    object, so it takes the final overrider of \<^verbatim>\<open>destroyNow\<close> as its first argument.
\<close>

record ('v, 'x, 'b) TDD =
  TDD_ctor :: "'v arg list \<Rightarrow> 'x + 'b"
  getDestructorGuardCount :: "'b \<Rightarrow> int"
  TDD_destroy :: "(bool \<Rightarrow> 'b \<Rightarrow> 'b outcome) \<Rightarrow> 'b \<Rightarrow> 'b outcome"

subsection \<open>The constructor\<close>

text \<open>
  \<^verbatim>\<open>template<typename ...Args> explicit TUndelayedDestruction(Args&& ...args)
    : TDD(std::forward<Args>(args)...) {}\<close>

  \<^verbatim>\<open>Args&&\<close> is a forwarding reference: for an lvalue argument of type \<^verbatim>\<open>V\<close> the
  template parameter is deduced as \<^verbatim>\<open>V&\<close>, for an rvalue as \<^verbatim>\<open>V\<close>. The model has
  one type of values, so a deduced parameter is only this distinction.
\<close>

datatype tparam = LvalueRef | NonRef

fun deduce :: "'v arg \<Rightarrow> tparam" where
  "deduce (LValue, v) = LvalueRef"
| "deduce (RValue, v) = NonRef"

text \<open>
  Inside the constructor a parameter \<^verbatim>\<open>args\<close> is a name, hence an lvalue expression,
  whatever the category of the argument it is bound to. It denotes the argument's object:
  a reference parameter makes no copy.
\<close>

fun bind_param :: "'v arg \<Rightarrow> 'v arg" where
  "bind_param (c, v) = (LValue, v)"

text \<open>
  \<^verbatim>\<open>std::forward<A>(x)\<close> is \<^verbatim>\<open>static_cast<A&&>(x)\<close>: an lvalue when \<^verbatim>\<open>A\<close> is an
  lvalue reference (the references collapse), an rvalue otherwise.
\<close>

fun std_forward :: "tparam \<Rightarrow> 'v arg \<Rightarrow> 'v arg" where
  "std_forward LvalueRef (c, v) = (LValue, v)"
| "std_forward NonRef (c, v) = (RValue, v)"

text \<open>
  The constructor, on the argument list of the call. The first argument is the macro
  \<^verbatim>\<open>THRIFT_HAVE_CONSTRUCTOR_INHERITANCE\<close>: when it is set the class inherits the
  constructors of \<^verbatim>\<open>TDD\<close> (\<^verbatim>\<open>using TDD::TDD;\<close>), otherwise it declares the
  forwarding constructor, whose pack expansion applies \<^verbatim>\<open>std::forward\<close> position by
  position. The body of the constructor is empty and there is no handler around the
  base's initialisation.
\<close>

definition TUndelayedDestruction :: "bool \<Rightarrow> ('v, 'x, 'b) TDD \<Rightarrow> 'v arg list \<Rightarrow> 'x + 'b" where
  "TUndelayedDestruction have_constructor_inheritance T actuals =
     (if have_constructor_inheritance then TDD_ctor T actuals
      else
        (let Args = map deduce actuals;
             args = map bind_param actuals
         in TDD_ctor T (map2 std_forward Args args)))"

subsection \<open>The teardown overrides\<close>

text \<open>
  \<^verbatim>\<open>virtual void destroyNow(bool delayed) { assert(!delayed); (void)delayed; }\<close>
\<close>

definition destroyNow :: "build \<Rightarrow> bool \<Rightarrow> 'b \<Rightarrow> 'b outcome" where
  "destroyNow bm delayed b = c_assert bm (\<not> delayed) b"

text \<open>
  \<^verbatim>\<open>virtual void destroy() { this->TDD::destroy(); }\<close>

  The call names \<^verbatim>\<open>TDD::destroy\<close> and is not dispatched. The second argument is the
  final overrider of \<^verbatim>\<open>destroyNow\<close> in the object \<^verbatim>\<open>this\<close> points to.
\<close>

definition destroy ::
  "('v, 'x, 'b) TDD \<Rightarrow> (bool \<Rightarrow> 'b \<Rightarrow> 'b outcome) \<Rightarrow> 'b \<Rightarrow> 'b run" where
  "destroy T final_destroyNow b = ([Call_TDD_destroy], TDD_destroy T final_destroyNow b)"

subsection \<open>The destructor\<close>

text \<open>
  \<^verbatim>\<open>virtual ~TUndelayedDestruction() {
    if (this->getDestructorGuardCount() != 0) { abort(); }
    this->destroy();
  }\<close>

  While the destructor of the class runs, the virtual functions of the object are those
  of the class itself: \<^verbatim>\<open>this->destroy()\<close> is \<open>destroy\<close> above and the final
  overrider of \<^verbatim>\<open>destroyNow\<close> is \<open>destroyNow\<close> above. This is the body of the
  destructor; the destructor of the \<^verbatim>\<open>TDD\<close> sub-object, which the language runs after
  it, is code of \<^verbatim>\<open>TDD\<close>.
\<close>

definition TUndelayedDestruction_dtor :: "('v, 'x, 'b) TDD \<Rightarrow> build \<Rightarrow> 'b \<Rightarrow> 'b run" where
  "TUndelayedDestruction_dtor T bm =
     seq (\<lambda>b. if getDestructorGuardCount T b \<noteq> 0 then abort b else skip b)
         (destroy T (destroyNow bm))"

subsection \<open>A base type to run the class on\<close>

text \<open>
  Modelled from the spec: the guardable base type (\<^verbatim>\<open>TDelayedDestruction\<close>), which
  is not among the sources. It holds a destructor guard count; its \<^verbatim>\<open>destroy()\<close>
  postpones the teardown while the count is not zero, and otherwise calls the
  \<^verbatim>\<open>destroyNow\<close> extension point with the flag unset. The theorems below hold for
  every \<^verbatim>\<open>TDD\<close>; this one is where they are evaluated.

  Its constructor takes any number of integers, refuses a negative one with an
  exception, starts the guard count at their sum, and records how many of them it
  received as rvalues.
\<close>

record guardable =
  guardCount :: int
  destroyPending :: bool
  received_rvalues :: nat

definition guardable_ctor :: "int arg list \<Rightarrow> string + guardable" where
  "guardable_ctor actuals =
     (if list_ex (\<lambda>(c, v). v < 0) actuals then Inl ''invalid argument''
      else Inr \<lparr>guardCount = sum_list (map snd actuals), destroyPending = False,
                received_rvalues = length (filter (\<lambda>(c, v). c = RValue) actuals)\<rparr>)"

definition guardable_destroy ::
  "(bool \<Rightarrow> guardable \<Rightarrow> guardable outcome) \<Rightarrow> guardable \<Rightarrow> guardable outcome" where
  "guardable_destroy final_destroyNow b =
     (if guardCount b \<noteq> 0 then Returns (b\<lparr>destroyPending := True\<rparr>)
      else final_destroyNow False b)"

definition guardable_TDD :: "(int, string, guardable) TDD" where
  "guardable_TDD =
     \<lparr>TDD_ctor = guardable_ctor, getDestructorGuardCount = guardCount,
      TDD_destroy = guardable_destroy\<rparr>"

definition guarded :: "int \<Rightarrow> guardable" where
  "guarded g = \<lparr>guardCount = g, destroyPending = False, received_rvalues = 0\<rparr>"



text \<open>The object state an outcome carries.\<close>

fun state_of :: "'b outcome \<Rightarrow> 'b" where
  "state_of (Returns b) = b"
| "state_of (Terminated f b) = b"

section \<open>Properties\<close>

subsection \<open>Auxiliary facts\<close>

lemma dtor_unfold:
  "TUndelayedDestruction_dtor T bm b =
     (if getDestructorGuardCount T b \<noteq> 0 then ([Call_abort], Terminated Abort b)
      else ([Call_TDD_destroy], TDD_destroy T (destroyNow bm) b))"
  by (simp add: TUndelayedDestruction_dtor_def seq_def abort_def skip_def destroy_def)

lemma forward_bound_param: "std_forward (deduce a) (bind_param a) = a"
  by (cases a rule: deduce.cases) simp_all

lemma forward_pack:
  "map2 std_forward (map deduce actuals) (map bind_param actuals) = actuals"
  by (induction actuals) (simp_all add: forward_bound_param)

lemma ctor_is_base_ctor: "TUndelayedDestruction h T actuals = TDD_ctor T actuals"
  by (simp add: TUndelayedDestruction_def forward_pack)

lemma guardable_simps:
  "getDestructorGuardCount guardable_TDD = guardCount"
  "TDD_destroy guardable_TDD = guardable_destroy"
  "TDD_ctor guardable_TDD = guardable_ctor"
  "guardCount (guarded g) = g"
  by (simp_all add: guardable_TDD_def guarded_def)

subsection \<open>The destructor with guards outstanding\<close>

text \<open>
  C1. Whenever the guard count is positive when the destructor runs, the destructor
  ends in \<^verbatim>\<open>abort()\<close>, in either build and for every base type: the process is
  terminated, the only call made is the one to \<^verbatim>\<open>abort\<close>, \<^verbatim>\<open>TDD::destroy\<close> has
  not been called, and the object is as it was found.
\<close>

theorem dtor_positive_guard_aborts:
  assumes "0 < getDestructorGuardCount T b"
  shows "TUndelayedDestruction_dtor T bm b = ([Call_abort], Terminated Abort b)
         \<and> Call_TDD_destroy \<notin> set (fst (TUndelayedDestruction_dtor T bm b))"
  using assms by (simp add: dtor_unfold)

theorem dtor_positive_guard_aborts_witness:
  "0 < getDestructorGuardCount guardable_TDD (guarded 1)
   \<and> TUndelayedDestruction_dtor guardable_TDD Release (guarded 1)
       = ([Call_abort], Terminated Abort (guarded 1))
   \<and> TUndelayedDestruction_dtor guardable_TDD Debug (guarded 2)
       = ([Call_abort], Terminated Abort (guarded 2))"
proof -
  have one: "0 < getDestructorGuardCount guardable_TDD (guarded 1)"
    by (simp add: guardable_simps)
  have two: "0 < getDestructorGuardCount guardable_TDD (guarded 2)"
    by (simp add: guardable_simps)
  show ?thesis
    using one dtor_positive_guard_aborts [OF one, of Release]
      dtor_positive_guard_aborts [OF two, of Debug]
    by simp
qed

subsection \<open>The destructor with no guard outstanding\<close>




subsection \<open>The constructor\<close>

text \<open>
  C3. For an argument list of any length, of lvalues and rvalues in any mix, the pack
  the constructor hands to the constructor of \<^verbatim>\<open>TDD\<close> is the argument list of the
  call, value by value and category by category (an rvalue arrives as an rvalue, so it
  is there to be moved from). The construction gives what constructing \<^verbatim>\<open>TDD\<close>
  from the same arguments gives, whichever way the class got its constructors.
\<close>

theorem ctor_forwards_arguments_unchanged:
  "map2 std_forward (map deduce actuals) (map bind_param actuals) = actuals
   \<and> TUndelayedDestruction have_constructor_inheritance T actuals = TDD_ctor T actuals"
  by (simp add: forward_pack ctor_is_base_ctor)

theorem ctor_forwards_arguments_unchanged_witness:
  "TUndelayedDestruction False guardable_TDD []
     = Inr \<lparr>guardCount = 0, destroyPending = False, received_rvalues = 0\<rparr>
   \<and> TUndelayedDestruction False guardable_TDD [(RValue, 4)]
     = Inr \<lparr>guardCount = 4, destroyPending = False, received_rvalues = 1\<rparr>
   \<and> TUndelayedDestruction False guardable_TDD [(LValue, 1), (RValue, 2), (LValue, 0)]
     = Inr \<lparr>guardCount = 3, destroyPending = False, received_rvalues = 1\<rparr>"
  using ctor_forwards_arguments_unchanged [of "[]" False guardable_TDD]
    ctor_forwards_arguments_unchanged [of "[(RValue, 4)]" False guardable_TDD]
    ctor_forwards_arguments_unchanged [of "[(LValue, 1), (RValue, 2), (LValue, 0)]" False guardable_TDD]
  by (simp add: guardable_simps guardable_ctor_def)

text \<open>
  C7. The constructor fails exactly when the constructor of \<^verbatim>\<open>TDD\<close> fails on the
  same arguments, and with the same exception: it refuses nothing by itself, and what the
  base throws reaches the caller as it was thrown.
\<close>

theorem ctor_failure_is_base_failure:
  "(TUndelayedDestruction have_constructor_inheritance T actuals = Inl e)
     = (TDD_ctor T actuals = Inl e)"
  by (simp add: ctor_is_base_ctor)

theorem ctor_failure_is_base_failure_witness:
  "TDD_ctor guardable_TDD [(LValue, 1), (RValue, - 2)] = Inl ''invalid argument''
   \<and> TUndelayedDestruction False guardable_TDD [(LValue, 1), (RValue, - 2)]
       = Inl ''invalid argument''"
proof -
  have base: "TDD_ctor guardable_TDD [(LValue, 1), (RValue, - 2)] = Inl ''invalid argument''"
    by (simp add: guardable_simps guardable_ctor_def)
  show ?thesis
    using base
      ctor_failure_is_base_failure
        [of False guardable_TDD "[(LValue, 1), (RValue, - 2)]" "''invalid argument''"]
    by blast
qed

subsection \<open>The destroyNow override\<close>

text \<open>
  C4. In a debug build \<^verbatim>\<open>destroyNow(true)\<close> ends the process with a failed
  assertion. \<^verbatim>\<open>destroyNow(false)\<close> in a debug build, and \<^verbatim>\<open>destroyNow\<close> with either
  flag in a release build, return and leave the object as it was.
\<close>

theorem destroyNow_asserts_not_delayed:
  "destroyNow Debug True b = Terminated AssertionFailed b
   \<and> destroyNow Debug False b = Returns b
   \<and> destroyNow Release delayed b = Returns b"
  by (simp add: destroyNow_def c_assert_def)

theorem destroyNow_asserts_not_delayed_witness:
  "destroyNow Debug True (guarded 0) = Terminated AssertionFailed (guarded 0)
   \<and> destroyNow Debug False (guarded 0) = Returns (guarded 0)
   \<and> destroyNow Release True (guarded 0) = Returns (guarded 0)"
  using destroyNow_asserts_not_delayed [of "guarded 0" True]
  by simp

subsection \<open>What the destructor changes\<close>

text \<open>
  C6. The destructor writes nothing to the object. Its outcome is the outcome of
  \<^verbatim>\<open>TDD::destroy\<close>, started on the object exactly as the destructor found it, or,
  when the guard test ends the process, that very object. So the guard count at the end
  is the one \<^verbatim>\<open>TDD::destroy\<close> left, or the one found. The \<^verbatim>\<open>destroyNow\<close>
  override, which \<^verbatim>\<open>TDD::destroy\<close> may call back, changes nothing either.
\<close>

theorem dtor_leaves_guard_count_to_base:
  "snd (TUndelayedDestruction_dtor T bm b) =
     (if getDestructorGuardCount T b = 0 then TDD_destroy T (destroyNow bm) b
      else Terminated Abort b)
   \<and> getDestructorGuardCount T (state_of (snd (TUndelayedDestruction_dtor T bm b))) =
     (if getDestructorGuardCount T b = 0
      then getDestructorGuardCount T (state_of (TDD_destroy T (destroyNow bm) b))
      else getDestructorGuardCount T b)
   \<and> state_of (destroyNow bm delayed b) = b"
  by (cases bm) (simp_all add: dtor_unfold destroyNow_def c_assert_def)

theorem dtor_leaves_guard_count_to_base_witness:
  "state_of (snd (TUndelayedDestruction_dtor guardable_TDD Debug (guarded 3))) = guarded 3
   \<and> getDestructorGuardCount guardable_TDD
         (state_of (snd (TUndelayedDestruction_dtor guardable_TDD Debug (guarded 3)))) = 3
   \<and> state_of (snd (TUndelayedDestruction_dtor guardable_TDD Debug (guarded 0))) = guarded 0"
  using dtor_leaves_guard_count_to_base [of guardable_TDD Debug "guarded 3" False]
    dtor_leaves_guard_count_to_base [of guardable_TDD Debug "guarded 0" False]
  by (simp add: guardable_simps guardable_destroy_def)

subsection \<open>The guard test\<close>

text \<open>
  C8. The test is \<^verbatim>\<open>!= 0\<close>: the destructor calls \<^verbatim>\<open>abort()\<close> if and only if the
  guard count is not zero, a negative count included, and it reaches
  \<^verbatim>\<open>TDD::destroy\<close> if and only if the count is zero.
\<close>

theorem dtor_aborts_iff_guard_nonzero:
  "(Call_abort \<in> set (fst (TUndelayedDestruction_dtor T bm b)))
     = (getDestructorGuardCount T b \<noteq> 0)
   \<and> (TUndelayedDestruction_dtor T bm b = abort b)
     = (getDestructorGuardCount T b \<noteq> 0)
   \<and> (Call_TDD_destroy \<in> set (fst (TUndelayedDestruction_dtor T bm b)))
     = (getDestructorGuardCount T b = 0)"
  by (simp add: dtor_unfold abort_def)

theorem dtor_aborts_iff_guard_nonzero_witness:
  "getDestructorGuardCount guardable_TDD (guarded (- 1)) < 0
   \<and> TUndelayedDestruction_dtor guardable_TDD Release (guarded (- 1))
       = ([Call_abort], Terminated Abort (guarded (- 1)))
   \<and> Call_abort \<in> set (fst (TUndelayedDestruction_dtor guardable_TDD Debug (guarded 7)))
   \<and> Call_abort \<notin> set (fst (TUndelayedDestruction_dtor guardable_TDD Debug (guarded 0)))"
  using dtor_aborts_iff_guard_nonzero [of guardable_TDD Release "guarded (- 1)"]
    dtor_aborts_iff_guard_nonzero [of guardable_TDD Debug "guarded 7"]
    dtor_aborts_iff_guard_nonzero [of guardable_TDD Debug "guarded 0"]
  by (simp add: guardable_simps abort_def)

end
